theory Spec2Isabelle
  imports Main "HOL-Library.Log_Nat"
begin

section \<open>Data model\<close>

text \<open>
  The matching engine (location filter, requirement evaluator, scorer, pipeline) is one
  TypeScript module. Its types come from a schema module; the records below carry the
  fields the engine reads. An optional field (\<^verbatim>\<open>f?: T\<close>) is a \<open>T option\<close>, with
  \<open>None\<close> for \<^verbatim>\<open>undefined\<close>. Strings are compared by \<^verbatim>\<open>===\<close> and
  \<^verbatim>\<open>includes\<close>, which on strings is equality of the character sequences.
\<close>

datatype level = Federal | State | County | City | Nonprofit

record Coverage =
  states :: "string list option"
  counties :: "string list option"
  cities :: "string list option"
  zipCodes :: "string list option"

text \<open>
  The evaluator receives \<^verbatim>\<open>criteria?: any\<close> and reads four fields of it. Numbers are
  binary64 values (days, percentages), given by the rationals they denote; the flag is a
  boolean.
\<close>

record Criteria =
  minServiceDays :: "rat option"
  dischargeTypes :: "string list option"
  minDisabilityRating :: "rat option"
  requiresSpouse :: "bool option"

record EligibilityRequirement =
  rtype :: string
  description :: string
  criteria :: "Criteria option"

record Benefit =
  ident :: string
  category :: string
  level :: level
  coverage :: Coverage
  requirements :: "EligibilityRequirement list"

record VeteranProfile =
  zipCode :: string
  dischargeStatus :: "string option"
  yearsOfService :: "rat option"
  disabilityRating :: "rat option"
  incomeLevel :: "string option"
  hasSpouse :: "bool option"

record ZipLocation =
  zip :: string
  city :: string
  county :: string
  countyFips :: string
  state :: string
  stateCode :: string

section \<open>Location resolver\<close>

text \<open>
  \<^verbatim>\<open>lookupZipCode\<close> reads \<^verbatim>\<open>sampleData[zip] || null\<close> from an object literal. The
  literal has three own keys, and it inherits the members of \<^verbatim>\<open>Object.prototype\<close>:
  for a key such as \<^verbatim>\<open>constructor\<close> the read yields an inherited function or object,
  which is truthy, so the function returns it and not \<^verbatim>\<open>null\<close>. Such a value has
  none of the fields of a location: each of them reads \<^verbatim>\<open>undefined\<close>. A result is
  therefore an entry of the table, an inherited member, or \<open>None\<close> for \<^verbatim>\<open>null\<close>.
\<close>

datatype location = Entry ZipLocation | Inherited

definition object_prototype_keys :: "string list" where
  "object_prototype_keys =
     [''constructor'', ''__proto__'', ''hasOwnProperty'', ''isPrototypeOf'',
      ''propertyIsEnumerable'', ''toLocaleString'', ''toString'', ''valueOf'',
      ''__defineGetter__'', ''__defineSetter__'', ''__lookupGetter__'',
      ''__lookupSetter__'']"

definition sampleData :: "(string \<times> ZipLocation) list" where
  "sampleData =
     [(''78701'', \<lparr>zip = ''78701'', city = ''Austin'', county = ''Travis County'',
                   countyFips = ''48453'', state = ''Texas'', stateCode = ''TX''\<rparr>),
      (''78205'', \<lparr>zip = ''78205'', city = ''San Antonio'', county = ''Bexar County'',
                   countyFips = ''48029'', state = ''Texas'', stateCode = ''TX''\<rparr>),
      (''77001'', \<lparr>zip = ''77001'', city = ''Houston'', county = ''Harris County'',
                   countyFips = ''48201'', state = ''Texas'', stateCode = ''TX''\<rparr>)]"

definition lookupZipCode :: "string \<Rightarrow> location option" where
  "lookupZipCode z =
     (case map_of sampleData z of
        Some l \<Rightarrow> Some (Entry l)
      | None \<Rightarrow> if List.member object_prototype_keys z then Some Inherited else None)"

text \<open>Field reads on a resolved location; \<open>None\<close> is \<^verbatim>\<open>undefined\<close>.\<close>

fun loc_stateCode :: "location \<Rightarrow> string option" where
  "loc_stateCode (Entry l) = Some (stateCode l)"
| "loc_stateCode Inherited = None"

fun loc_countyFips :: "location \<Rightarrow> string option" where
  "loc_countyFips (Entry l) = Some (countyFips l)"
| "loc_countyFips Inherited = None"

fun loc_city :: "location \<Rightarrow> string option" where
  "loc_city (Entry l) = Some (city l)"
| "loc_city Inherited = None"

text \<open>Interpolation into a template literal: \<^verbatim>\<open>undefined\<close> prints as its name.\<close>

fun template_str :: "string option \<Rightarrow> string" where
  "template_str (Some s) = s"
| "template_str None = ''undefined''"

definition cityKey :: "location \<Rightarrow> string" where
  "cityKey loc = template_str (loc_city loc) @ '', '' @ template_str (loc_stateCode loc)"

section \<open>Location filter\<close>

text \<open>
  \<^verbatim>\<open>xs?.length\<close> as a condition: true when the array is present and not empty.
  \<^verbatim>\<open>xs.includes(v)\<close> on an array of strings: no element equals \<^verbatim>\<open>undefined\<close>.
\<close>

fun has_length :: "string list option \<Rightarrow> bool" where
  "has_length None = False"
| "has_length (Some xs) = (xs \<noteq> [])"

fun includes_js :: "string list option \<Rightarrow> string option \<Rightarrow> bool" where
  "includes_js (Some xs) (Some v) = List.member xs v"
| "includes_js _ _ = False"

text \<open>The callback of the second \<^verbatim>\<open>filter\<close>, with its early returns in order.\<close>

definition applies_at :: "string \<Rightarrow> location \<Rightarrow> Benefit \<Rightarrow> bool" where
  "applies_at zipCode' loc benefit =
     (if level benefit = Federal then True
      else if has_length (states (coverage benefit)) \<and>
              \<not> includes_js (states (coverage benefit)) (loc_stateCode loc) then False
      else if has_length (counties (coverage benefit)) \<and>
              \<not> includes_js (counties (coverage benefit)) (loc_countyFips loc) then False
      else if has_length (cities (coverage benefit)) \<and>
              \<not> includes_js (cities (coverage benefit)) (Some (cityKey loc)) then False
      else if has_length (zipCodes (coverage benefit)) \<and>
              \<not> includes_js (zipCodes (coverage benefit)) (Some zipCode') then False
      else True)"

definition getBenefitsForLocation :: "string \<Rightarrow> Benefit list \<Rightarrow> Benefit list" where
  "getBenefitsForLocation zipCode' allBenefits =
     (case lookupZipCode zipCode' of
        None \<Rightarrow> filter (\<lambda>b. level b = Federal) allBenefits
      | Some loc \<Rightarrow> filter (applies_at zipCode' loc) allBenefits)"

section \<open>Binary64 numbers\<close>

text \<open>
  A JavaScript number is a binary64 value, modelled by the rational it denotes (NaN and
  the infinities are left out). An arithmetic operation rounds its exact result to the
  nearest double. The score is \<^verbatim>\<open>Math.round((metRequirements / totalRequirements) * 100)\<close> on
  binary64 numbers: the quotient is rounded to the nearest double, the product of that
  double with 100 is rounded again, and \<^verbatim>\<open>Math.round\<close> takes the nearest integer,
  a tie going up. A double is modelled by the rational it denotes. \<open>to_double\<close> rounds
  a rational to 53 significant bits, ties to even; it is the rounding of binary64 on the
  normal range, which holds every value met here (counts are array lengths, below
  \<open>2^32\<close>, so a non-zero quotient is above \<open>2^-32\<close> and a product at most 100).
\<close>

definition round_half_even :: "rat \<Rightarrow> int" where
  "round_half_even x =
     (let f = \<lfloor>x\<rfloor>; d = x - of_int f
      in if d < 1 / 2 then f else if 1 / 2 < d then f + 1 else if even f then f else f + 1)"

text \<open>The exponent \<open>e\<close> with \<open>2^e \<le> x < 2^(e+1)\<close>, for positive \<open>x\<close>.\<close>

definition binade :: "rat \<Rightarrow> int" where
  "binade x =
     (case quotient_of x of
        (a, b) \<Rightarrow>
          let d = int (floorlog 2 (nat a)) - int (floorlog 2 (nat b))
          in if 2 powi d \<le> x then d else d - 1)"

definition to_double :: "rat \<Rightarrow> rat" where
  "to_double x =
     (if x = 0 then 0
      else let ulp = 2 powi (binade \<bar>x\<bar> - 52)
           in sgn x * of_int (round_half_even (\<bar>x\<bar> / ulp)) * ulp)"

definition js_divide :: "rat \<Rightarrow> rat \<Rightarrow> rat" where
  "js_divide a b = to_double (a / b)"

definition js_times :: "rat \<Rightarrow> rat \<Rightarrow> rat" where
  "js_times a b = to_double (a * b)"

definition Math_round :: "rat \<Rightarrow> int" where
  "Math_round x = \<lfloor>x + 1 / 2\<rfloor>"

section \<open>Requirement evaluator\<close>

text \<open>
  The result is the pair \<open>(met, needsInfo)\<close>; \<open>met = None\<close> is \<^verbatim>\<open>null\<close>. Conditions
  on values follow JavaScript truthiness: an object or array is true when present, a
  string when present and not empty, a boolean when it is \<^verbatim>\<open>true\<close>.
\<close>

type_synonym verdict = "bool option \<times> bool"

fun truthy_str :: "string option \<Rightarrow> bool" where
  "truthy_str None = False"
| "truthy_str (Some s) = (s \<noteq> [])"

definition truthy_bool :: "bool option \<Rightarrow> bool" where
  "truthy_bool b = (b = Some True)"

definition default_verdict :: verdict where
  "default_verdict = (None, True)"

definition checkRequirement :: "VeteranProfile \<Rightarrow> EligibilityRequirement \<Rightarrow> verdict" where
  "checkRequirement profile req =
     (case criteria req of
        None \<Rightarrow> (None, True)
      | Some c \<Rightarrow>
          if rtype req = ''disability'' then
            (case disabilityRating profile of
               None \<Rightarrow> (None, True)
             | Some rating \<Rightarrow>
                 (case minDisabilityRating c of
                    Some m \<Rightarrow> (Some (rating \<ge> m), False)
                  | None \<Rightarrow> default_verdict))
          else if rtype req = ''service'' then
            (if dischargeTypes c \<noteq> None \<and> truthy_str (dischargeStatus profile) then
               (Some (includes_js (dischargeTypes c) (dischargeStatus profile)), False)
             else
               (case (minServiceDays c, yearsOfService profile) of
                  (Some days, Some years) \<Rightarrow>
                    (let serviceDays = js_times years 365 in (Some (serviceDays \<ge> days), False))
                | _ \<Rightarrow> (None, True)))
          else if rtype req = ''income'' then
            (if incomeLevel profile = None then (None, True) else (None, True))
          else if rtype req = ''family'' then
            (if truthy_bool (requiresSpouse c) \<and> hasSpouse profile = None then (None, True)
             else if truthy_bool (requiresSpouse c) then (Some (hasSpouse profile = Some True), False)
             else default_verdict)
          else default_verdict)"

section \<open>Match scorer\<close>

datatype eligibility_status = Likely | Possible | Unlikely | Unknown

record MatchResult =
  matchScore :: int
  eligibilityStatus :: eligibility_status
  matchedRequirements :: "string list"
  missingInfo :: "string list"

record BenefitMatch = MatchResult +
  benefit :: Benefit

text \<open>
  The state of the loop over the requirements:
  \<open>(matchedRequirements, missingInfo, metRequirements)\<close>.
\<close>

type_synonym loop_state = "string list \<times> string list \<times> nat"

definition loop_body :: "VeteranProfile \<Rightarrow> loop_state \<Rightarrow> EligibilityRequirement \<Rightarrow> loop_state" where
  "loop_body profile st req =
     (case st of
        (matched, missing, metReqs) \<Rightarrow>
          (case checkRequirement profile req of
             (met, needsInfo) \<Rightarrow>
               if met = Some True then (matched @ [description req], missing, metReqs + 1)
               else if met = None \<or> needsInfo then (matched, missing @ [description req], metReqs)
               else (matched, missing, metReqs)))"

definition score_of :: "nat \<Rightarrow> nat \<Rightarrow> int" where
  "score_of metReqs totalRequirements =
     (if totalRequirements > 0
      then Math_round (js_times (js_divide (of_nat metReqs) (of_nat totalRequirements)) 100)
      else 50)"

definition status_of :: "nat \<Rightarrow> nat \<Rightarrow> int \<Rightarrow> eligibility_status" where
  "status_of missingLength totalRequirements score =
     (if missingLength = totalRequirements then Unknown
      else if score \<ge> 80 then Likely
      else if score \<ge> 50 then Possible
      else Unlikely)"

definition calculateMatch :: "VeteranProfile \<Rightarrow> Benefit \<Rightarrow> MatchResult" where
  "calculateMatch profile b =
     (let totalRequirements = length (requirements b)
      in case foldl (loop_body profile) ([], [], 0) (requirements b) of
           (matched, missing, metReqs) \<Rightarrow>
             let score = score_of metReqs totalRequirements
             in \<lparr>matchScore = score,
                 eligibilityStatus = status_of (length missing) totalRequirements score,
                 matchedRequirements = matched,
                 missingInfo = missing\<rparr>)"

section \<open>Match pipeline\<close>

text \<open>
  \<^verbatim>\<open>Array.prototype.sort\<close> with a comparator is a stable sort (ECMAScript 2019): an
  element goes before another when the comparator is negative, and elements that compare
  equal keep their order. With a consistent comparator the result is determined, so it
  is modelled by insertion from the right.
\<close>

fun insert_sorted :: "('a \<Rightarrow> 'a \<Rightarrow> int) \<Rightarrow> 'a \<Rightarrow> 'a list \<Rightarrow> 'a list" where
  "insert_sorted cmp x [] = [x]"
| "insert_sorted cmp x (y # ys) =
     (if cmp x y \<le> 0 then x # y # ys else y # insert_sorted cmp x ys)"

definition array_sort :: "('a \<Rightarrow> 'a \<Rightarrow> int) \<Rightarrow> 'a list \<Rightarrow> 'a list" where
  "array_sort cmp xs = foldr (insert_sorted cmp) xs []"

definition to_match :: "VeteranProfile \<Rightarrow> Benefit \<Rightarrow> BenefitMatch" where
  "to_match profile b =
     (let r = calculateMatch profile b
      in \<lparr>matchScore = matchScore r,
          eligibilityStatus = eligibilityStatus r,
          matchedRequirements = matchedRequirements r,
          missingInfo = missingInfo r,
          benefit = b\<rparr>)"

definition matchBenefits :: "VeteranProfile \<Rightarrow> Benefit list \<Rightarrow> BenefitMatch list" where
  "matchBenefits profile benefits =
     array_sort (\<lambda>a b. matchScore b - matchScore a)
       (map (to_match profile) (getBenefitsForLocation (zipCode profile) benefits))"

text \<open>
  The coverage rule in the specification's words: a dimension that is absent or empty
  admits every location; a dimension with entries admits the locations whose value is
  one of the entries.
\<close>

definition dimension_admits :: "string list option \<Rightarrow> string option \<Rightarrow> bool" where
  "dimension_admits d v =
     (case d of
        None \<Rightarrow> True
      | Some xs \<Rightarrow> xs = [] \<or> (case v of None \<Rightarrow> False | Some s \<Rightarrow> s \<in> set xs))"

definition in_scope :: "string \<Rightarrow> location \<Rightarrow> Benefit \<Rightarrow> bool" where
  "in_scope zipCode' loc b =
     (level b = Federal \<or>
      (dimension_admits (states (coverage b)) (loc_stateCode loc) \<and>
       dimension_admits (counties (coverage b)) (loc_countyFips loc) \<and>
       dimension_admits (cities (coverage b)) (Some (cityKey loc)) \<and>
       dimension_admits (zipCodes (coverage b)) (Some zipCode')))"

section \<open>Concrete inputs\<close>

definition austin :: ZipLocation where
  "austin = \<lparr>zip = ''78701'', city = ''Austin'', county = ''Travis County'',
             countyFips = ''48453'', state = ''Texas'', stateCode = ''TX''\<rparr>"

definition no_coverage :: Coverage where
  "no_coverage = \<lparr>states = None, counties = None, cities = None, zipCodes = None\<rparr>"

definition no_criteria :: Criteria where
  "no_criteria = \<lparr>minServiceDays = None, dischargeTypes = None,
                  minDisabilityRating = None, requiresSpouse = None\<rparr>"

definition blank_profile :: VeteranProfile where
  "blank_profile = \<lparr>zipCode = ''78701'', dischargeStatus = None, yearsOfService = None,
                    disabilityRating = None, incomeLevel = None, hasSpouse = None\<rparr>"

definition va_health :: Benefit where
  "va_health = \<lparr>ident = ''va-healthcare'', category = ''healthcare'', level = Federal,
                coverage = no_coverage, requirements = []\<rparr>"

definition rating_req :: EligibilityRequirement where
  "rating_req = \<lparr>rtype = ''disability'',
                 description = ''Have a VA disability rating of 10% or higher'',
                 criteria = Some (no_criteria\<lparr>minDisabilityRating := Some 10\<rparr>)\<rparr>"

definition other_req :: EligibilityRequirement where
  "other_req = \<lparr>rtype = ''other'', description = ''Own property in Texas as your residence'',
                criteria = None\<rparr>"

definition tx_benefit :: Benefit where
  "tx_benefit = \<lparr>ident = ''tx-property-tax'', category = ''financial'', level = State,
                 coverage = no_coverage\<lparr>states := Some [''TX'']\<rparr>,
                 requirements = [rating_req, other_req]\<rparr>"

definition rating_benefit :: Benefit where
  "rating_benefit = \<lparr>ident = ''tx-disabled-plates'', category = ''financial'', level = State,
                     coverage = no_coverage\<lparr>states := Some [''TX'']\<rparr>,
                     requirements = [rating_req]\<rparr>"

definition ca_benefit :: Benefit where
  "ca_benefit = \<lparr>ident = ''ca-college-fee'', category = ''education'', level = State,
                 coverage = no_coverage\<lparr>states := Some [''CA'']\<rparr>, requirements = []\<rparr>"

definition local_benefit :: Benefit where
  "local_benefit = \<lparr>ident = ''legal-aid'', category = ''financial'', level = Nonprofit,
                    coverage = no_coverage, requirements = []\<rparr>"

definition scoped :: "string \<Rightarrow> level \<Rightarrow> Coverage \<Rightarrow> Benefit" where
  "scoped name lv cov =
     \<lparr>ident = name, category = ''housing'', level = lv, coverage = cov, requirements = []\<rparr>"

definition austin_catalog :: "Benefit list" where
  "austin_catalog =
     [scoped ''federal'' Federal (no_coverage\<lparr>states := Some [''CA'']\<rparr>),
      scoped ''state-in'' State (no_coverage\<lparr>states := Some [''CA'', ''TX'']\<rparr>),
      scoped ''state-out'' State (no_coverage\<lparr>states := Some [''CA'']\<rparr>),
      scoped ''county-in'' County (no_coverage\<lparr>counties := Some [''48453'']\<rparr>),
      scoped ''county-out'' County (no_coverage\<lparr>counties := Some [''Travis County'']\<rparr>),
      scoped ''city-in'' City (no_coverage\<lparr>cities := Some [''Austin, TX'']\<rparr>),
      scoped ''city-out'' City (no_coverage\<lparr>cities := Some [''Austin'']\<rparr>),
      scoped ''zip-in'' Nonprofit (no_coverage\<lparr>zipCodes := Some [''78701'']\<rparr>),
      scoped ''zip-out'' Nonprofit (no_coverage\<lparr>zipCodes := Some [''77001'']\<rparr>),
      scoped ''empty'' Nonprofit (no_coverage\<lparr>states := Some [], cities := Some []\<rparr>),
      scoped ''one-fails'' City
        (no_coverage\<lparr>states := Some [''TX''], cities := Some [''Houston, TX'']\<rparr>)]"

definition days_req :: "rat \<Rightarrow> EligibilityRequirement" where
  "days_req n =
     \<lparr>rtype = ''service'', description = ''At least 181 days of active duty service'',
      criteria = Some (no_criteria\<lparr>minServiceDays := Some n\<rparr>)\<rparr>"

definition served :: "rat \<Rightarrow> VeteranProfile" where
  "served years = blank_profile\<lparr>yearsOfService := Some years\<rparr>"

definition spouse_req :: "bool \<Rightarrow> EligibilityRequirement" where
  "spouse_req flag =
     \<lparr>rtype = ''family'', description = ''Be the spouse of a veteran'',
      criteria = Some (no_criteria\<lparr>requiresSpouse := Some flag\<rparr>)\<rparr>"

definition income_req :: EligibilityRequirement where
  "income_req = \<lparr>rtype = ''income'', description = ''Income below the limit'',
                 criteria = Some no_criteria\<rparr>"

definition rated :: "rat \<Rightarrow> VeteranProfile" where
  "rated n = blank_profile\<lparr>disabilityRating := Some n\<rparr>"

definition married :: "bool \<Rightarrow> VeteranProfile" where
  "married h = blank_profile\<lparr>hasSpouse := Some h\<rparr>"

definition no_req_benefit :: Benefit where
  "no_req_benefit = \<lparr>ident = ''tx-license-plates'', category = ''financial'', level = State,
                     coverage = no_coverage\<lparr>states := Some [''TX'']\<rparr>, requirements = []\<rparr>"

section \<open>Location filter: properties\<close>

lemma member_iff: "List.member xs x \<longleftrightarrow> x \<in> set xs"
  by (induction xs) auto

lemma applies_at_in_scope: "applies_at z loc b = in_scope z loc b"
proof -
  have dim: "(has_length d \<and> \<not> includes_js d v) = (\<not> dimension_admits d v)" for d v
    by (cases d; cases v) (auto simp: dimension_admits_def member_iff)
  show ?thesis
    unfolding applies_at_def in_scope_def dim by auto
qed

lemma lookup_austin: "lookupZipCode ''78701'' = Some (Entry austin)"
  by (simp add: lookupZipCode_def sampleData_def austin_def)

lemma lookup_unknown: "lookupZipCode ''99999'' = None"
  by (simp add: lookupZipCode_def sampleData_def object_prototype_keys_def)

lemma lookup_inherited: "lookupZipCode ''constructor'' = Some Inherited"
  by (simp add: lookupZipCode_def sampleData_def object_prototype_keys_def)

lemma filter_at_location:
  assumes "lookupZipCode z = Some loc"
  shows "getBenefitsForLocation z bs = filter (in_scope z loc) bs"
proof -
  have "applies_at z loc = in_scope z loc"
    by (rule ext) (rule applies_at_in_scope)
  then show ?thesis
    using assms by (simp add: getBenefitsForLocation_def)
qed

lemma in_scope_entry:
  "in_scope z (Entry l) b \<longleftrightarrow>
     level b = Federal \<or>
     (dimension_admits (states (coverage b)) (Some (stateCode l)) \<and>
      dimension_admits (counties (coverage b)) (Some (countyFips l)) \<and>
      dimension_admits (cities (coverage b)) (Some (city l @ '', '' @ stateCode l)) \<and>
      dimension_admits (zipCodes (coverage b)) (Some z))"
  by (simp add: in_scope_def cityKey_def)

text \<open>
  C1. At a resolved location the filter keeps exactly the benefits that are federal or
  whose every non-empty coverage dimension contains the location's value: states the
  state code, counties the county FIPS identifier, cities the string made of the city, a
  comma and a space, and the state code, and zipCodes the postal code as given. An
  absent or empty dimension excludes nothing, and one dimension that has entries
  without the value excludes the benefit.
\<close>

theorem getBenefitsForLocation_resolved:
  assumes "lookupZipCode z = Some (Entry l)"
  shows "getBenefitsForLocation z bs =
         filter (\<lambda>b. level b = Federal \<or>
                   (dimension_admits (states (coverage b)) (Some (stateCode l)) \<and>
                    dimension_admits (counties (coverage b)) (Some (countyFips l)) \<and>
                    dimension_admits (cities (coverage b)) (Some (city l @ '', '' @ stateCode l)) \<and>
                    dimension_admits (zipCodes (coverage b)) (Some z))) bs"
proof -
  have "in_scope z (Entry l) =
        (\<lambda>b. level b = Federal \<or>
           (dimension_admits (states (coverage b)) (Some (stateCode l)) \<and>
            dimension_admits (counties (coverage b)) (Some (countyFips l)) \<and>
            dimension_admits (cities (coverage b)) (Some (city l @ '', '' @ stateCode l)) \<and>
            dimension_admits (zipCodes (coverage b)) (Some z)))"
    by (rule ext) (rule in_scope_entry)
  then show ?thesis
    by (simp only: filter_at_location [OF assms])
qed

theorem getBenefitsForLocation_resolved_witness:
  "lookupZipCode ''78701'' = Some (Entry austin) \<and>
   map ident (getBenefitsForLocation ''78701'' austin_catalog) =
     [''federal'', ''state-in'', ''county-in'', ''city-in'', ''zip-in'', ''empty'']"
  using getBenefitsForLocation_resolved [OF lookup_austin, of austin_catalog] lookup_austin
  by (simp add: austin_catalog_def scoped_def dimension_admits_def no_coverage_def austin_def)

text \<open>The two halves of the rule, read off the filter.\<close>

lemma unspecified_dimension_admits:
  "dimension_admits None v" "dimension_admits (Some []) v"
  by (simp_all add: dimension_admits_def)

lemma failing_dimension_excludes:
  assumes "lookupZipCode z = Some loc" and "level b \<noteq> Federal"
    and "\<not> dimension_admits (states (coverage b)) (loc_stateCode loc) \<or>
         \<not> dimension_admits (counties (coverage b)) (loc_countyFips loc) \<or>
         \<not> dimension_admits (cities (coverage b)) (Some (cityKey loc)) \<or>
         \<not> dimension_admits (zipCodes (coverage b)) (Some z)"
  shows "b \<notin> set (getBenefitsForLocation z bs)"
  using assms(2,3) by (auto simp: filter_at_location [OF assms(1)] in_scope_def)

text \<open>When the lookup returns null, the result is the federal part of the catalog.\<close>

lemma federal_only_when_null:
  assumes "lookupZipCode z = None"
  shows "getBenefitsForLocation z bs = filter (\<lambda>b. level b = Federal) bs"
  using assms by (simp add: getBenefitsForLocation_def)

lemma federal_only_example:
  "getBenefitsForLocation ''99999'' [tx_benefit, va_health, ca_benefit, va_health] =
     [va_health, va_health]"
  by (simp add: federal_only_when_null [OF lookup_unknown] va_health_def ca_benefit_def
      tx_benefit_def)

text \<open>
  C3. For a postal code that the resolver cannot resolve, the filter is to return
  exactly the federal benefits of the catalog, in the catalog's order. The code does not
  at the postal code constructor: the table has no row for it, the lookup returns a
  member inherited from the prototype in place of null, the filter takes the branch of
  a resolved location, and a nonprofit benefit without coverage entries is returned
  beside the federal one.
\<close>

theorem getBenefitsForLocation_constructor:
  "map_of sampleData ''constructor'' = None \<and>
   lookupZipCode ''constructor'' = Some Inherited \<and>
   getBenefitsForLocation ''constructor'' [local_benefit, tx_benefit, va_health] =
     [local_benefit, va_health] \<and>
   filter (\<lambda>b. level b = Federal) [local_benefit, tx_benefit, va_health] = [va_health] \<and>
   level local_benefit = Nonprofit"
  by (simp add: filter_at_location [OF lookup_inherited] lookup_inherited in_scope_def
      dimension_admits_def local_benefit_def tx_benefit_def va_health_def no_coverage_def
      sampleData_def)

section \<open>Requirement evaluator: properties\<close>

text \<open>
  C6. A requirement of type income gets the verdict (null, true) from every profile,
  with or without criteria, also when the profile's income level is known.
\<close>

theorem checkRequirement_income:
  assumes "rtype req = ''income''"
  shows "checkRequirement profile req = (None, True)"
  using assms by (simp add: checkRequirement_def split: option.splits)

theorem checkRequirement_income_witness:
  "rtype income_req = ''income'' \<and>
   checkRequirement (blank_profile\<lparr>incomeLevel := Some ''low''\<rparr>) income_req = (None, True)"
  using checkRequirement_income [of income_req "blank_profile\<lparr>incomeLevel := Some ''low''\<rparr>"]
  by (simp add: income_req_def)

text \<open>
  C5, as amended. For a requirement of type family whose criteria have requiresSpouse
  true: a profile with hasSpouse unknown gets (null, true), and a profile with hasSpouse
  known gets met = (hasSpouse is true) with needsInfo false.
\<close>

theorem checkRequirement_family:
  assumes "rtype req = ''family''" and "criteria req = Some c"
    and "requiresSpouse c = Some True"
  shows "(hasSpouse profile = None \<longrightarrow> checkRequirement profile req = (None, True)) \<and>
         (hasSpouse profile \<noteq> None \<longrightarrow>
            checkRequirement profile req = (Some (hasSpouse profile = Some True), False))"
  using assms by (simp add: checkRequirement_def truthy_bool_def)

theorem checkRequirement_family_witness:
  "rtype (spouse_req True) = ''family'' \<and>
   criteria (spouse_req True) = Some (no_criteria\<lparr>requiresSpouse := Some True\<rparr>) \<and>
   requiresSpouse (no_criteria\<lparr>requiresSpouse := Some True\<rparr>) = Some True \<and>
   hasSpouse (married False) \<noteq> None \<and> hasSpouse blank_profile = None \<and>
   checkRequirement (married False) (spouse_req True) = (Some False, False) \<and>
   checkRequirement blank_profile (spouse_req True) = (None, True)"
  using checkRequirement_family [of "spouse_req True"
      "no_criteria\<lparr>requiresSpouse := Some True\<rparr>" "married False"]
    checkRequirement_family [of "spouse_req True"
      "no_criteria\<lparr>requiresSpouse := Some True\<rparr>" blank_profile]
  by (simp add: spouse_req_def married_def blank_profile_def)

text \<open>
  C5 as written fails when the field is set to false: the test on the field is a
  truthiness test, so the requirement falls through to the default verdict although
  hasSpouse is known.
\<close>

theorem checkRequirement_family_counterexample:
  "rtype (spouse_req False) = ''family'' \<and>
   map_option requiresSpouse (criteria (spouse_req False)) = Some (Some False) \<and>
   hasSpouse (married True) = Some True \<and>
   checkRequirement (married True) (spouse_req False) = (None, True) \<and>
   checkRequirement (married True) (spouse_req False) \<noteq>
     (Some (hasSpouse (married True) = Some True), False)"
  by (simp add: checkRequirement_def spouse_req_def married_def blank_profile_def
      no_criteria_def truthy_bool_def default_verdict_def)

text \<open>The verdict is null exactly when more information is needed.\<close>

lemma needsInfo_iff_null:
  "snd (checkRequirement profile req) \<longleftrightarrow> fst (checkRequirement profile req) = None"
  by (simp add: checkRequirement_def default_verdict_def split: option.splits prod.splits)

text \<open>
  C7. checkRequirement returns needsInfo = true exactly when met = null; so a
  requirement with met = false leaves the scorer's loop state as it is: its description
  goes to neither matchedRequirements nor missingInfo.
\<close>

theorem needsInfo_exactly_null:
  "(snd (checkRequirement profile req) \<longleftrightarrow> fst (checkRequirement profile req) = None) \<and>
   (fst (checkRequirement profile req) = Some False \<longrightarrow> loop_body profile st req = st)"
proof -
  have "loop_body profile st req = st" if "fst (checkRequirement profile req) = Some False"
  proof -
    from that needsInfo_iff_null [of profile req]
    have "checkRequirement profile req = (Some False, False)"
      by (cases "checkRequirement profile req") simp
    then show ?thesis
      by (simp add: loop_body_def split: prod.splits)
  qed
  then show ?thesis
    using needsInfo_iff_null by blast
qed

theorem needsInfo_exactly_null_witness:
  "checkRequirement (rated 5) rating_req = (Some False, False) \<and>
   loop_body (rated 5) ([''a''], [''b''], 1) rating_req = ([''a''], [''b''], 1)"
proof -
  have v: "checkRequirement (rated 5) rating_req = (Some False, False)"
    by (simp add: checkRequirement_def rated_def rating_req_def no_criteria_def)
  with needsInfo_exactly_null [of "rated 5" rating_req "([''a''], [''b''], 1)"]
  show ?thesis by simp
qed

section \<open>Match scorer: properties\<close>

text \<open>What the loop over the requirements computes, from any starting state.\<close>

lemma loop_body_cases:
  "loop_body profile (ma, mi, n) req =
     (if fst (checkRequirement profile req) = Some True then (ma @ [description req], mi, n + 1)
      else if fst (checkRequirement profile req) = None then (ma, mi @ [description req], n)
      else (ma, mi, n))"
  using needsInfo_iff_null [of profile req]
  by (cases "checkRequirement profile req") (auto simp: loop_body_def)

lemma loop_result:
  "foldl (loop_body profile) (ma, mi, n) rs =
     (ma @ map description (filter (\<lambda>r. fst (checkRequirement profile r) = Some True) rs),
      mi @ map description (filter (\<lambda>r. fst (checkRequirement profile r) = None) rs),
      n + length (filter (\<lambda>r. fst (checkRequirement profile r) = Some True) rs))"
proof (induction rs arbitrary: ma mi n)
  case Nil
  show ?case by simp
next
  case (Cons r rs)
  show ?case
    by (simp only: foldl_Cons loop_body_cases Cons.IH split: if_split) simp
qed

text \<open>
  C2. The status is read off in this order: unknown when missingInfo has as many
  entries as there are requirements; otherwise likely from a score of 80, possible from
  a score of 50, and unlikely below.
\<close>

theorem status_order:
  "eligibilityStatus (calculateMatch profile b) =
     (if length (missingInfo (calculateMatch profile b)) = length (requirements b) then Unknown
      else if matchScore (calculateMatch profile b) \<ge> 80 then Likely
      else if matchScore (calculateMatch profile b) \<ge> 50 then Possible
      else Unlikely)"
  by (simp add: calculateMatch_def status_of_def Let_def split: prod.splits)

text \<open>
  C4. A benefit without requirements scores 50 and has status unknown, for every
  profile: the test for unknown comes before the thresholds.
\<close>

theorem no_requirements_unknown:
  assumes "requirements b = []"
  shows "matchScore (calculateMatch profile b) = 50 \<and>
         eligibilityStatus (calculateMatch profile b) = Unknown"
  using assms by (simp add: calculateMatch_def status_of_def score_of_def)

theorem no_requirements_unknown_witness:
  "requirements no_req_benefit = [] \<and>
   matchScore (calculateMatch (rated 5) no_req_benefit) = 50 \<and>
   eligibilityStatus (calculateMatch (rated 5) no_req_benefit) = Unknown"
  using no_requirements_unknown [of no_req_benefit "rated 5"]
  by (simp add: no_req_benefit_def)

section \<open>Numbers of the scorer: properties\<close>

text \<open>Rounding to an integer, ties to even, is monotone and fixes the integers.\<close>

lemma rhe_bounds: "\<lfloor>x\<rfloor> \<le> round_half_even x" "round_half_even x \<le> \<lfloor>x\<rfloor> + 1"
  by (simp_all add: round_half_even_def Let_def)

lemma rhe_of_int [simp]: "round_half_even (of_int k) = k"
  by (simp add: round_half_even_def)

lemma rhe_le: "x \<le> of_int k \<Longrightarrow> round_half_even x \<le> k"
proof -
  assume a: "x \<le> of_int k"
  show ?thesis
  proof (cases "x = of_int k")
    case True then show ?thesis by simp
  next
    case False
    with a have "x < of_int k" by simp
    then have "\<lfloor>x\<rfloor> < k" by (simp add: floor_less_iff)
    with rhe_bounds(2) [of x] show ?thesis by linarith
  qed
qed

lemma rhe_ge: "of_int k \<le> x \<Longrightarrow> k \<le> round_half_even x"
  using rhe_bounds(1) [of x] by (meson le_floor_iff order_trans)

lemma rhe_mono: "x \<le> y \<Longrightarrow> round_half_even x \<le> round_half_even y"
proof -
  assume xy: "x \<le> y"
  have fl: "\<lfloor>x\<rfloor> \<le> \<lfloor>y\<rfloor>" using xy by (rule floor_mono)
  show ?thesis
  proof (cases "\<lfloor>x\<rfloor> = \<lfloor>y\<rfloor>")
    case True
    with xy have "x - of_int \<lfloor>x\<rfloor> \<le> y - of_int \<lfloor>y\<rfloor>" by simp
    with True show ?thesis
      by (auto simp: round_half_even_def Let_def)
  next
    case False
    with fl have "\<lfloor>x\<rfloor> + 1 \<le> \<lfloor>y\<rfloor>" by simp
    with rhe_bounds(2) [of x] rhe_bounds(1) [of y] show ?thesis by linarith
  qed
qed

lemma pow2_pos: "0 < (2::rat) powi k"
  by (simp add: power_int_def)

lemma pow2_mono: "j \<le> k \<Longrightarrow> (2::rat) powi j \<le> 2 powi k"
  by (rule power_int_increasing) simp_all

lemma pow2_diff: "(2::rat) powi (j - k) = 2 powi j / 2 powi k"
  by (rule power_int_diff) simp

lemma binade_bounds:
  assumes "0 < x"
  shows "2 powi binade x \<le> x" and "x < 2 powi (binade x + 1)"
proof -
  obtain a b where q: "quotient_of x = (a, b)"
    by (cases "quotient_of x")
  have b: "0 < b" using q by (rule quotient_of_denom_pos)
  have x: "x = of_int a / of_int b" using q by (rule quotient_of_div)
  have a: "0 < a"
    using assms b unfolding x by (simp add: zero_less_divide_iff)
  define la lb where "la = floorlog 2 (nat a)" and "lb = floorlog 2 (nat b)"
  have la: "2 ^ (la - 1) \<le> nat a" "nat a < 2 ^ la"
    using floorlog_bounds [of "nat a" 2] a by (simp_all add: la_def)
  have lb: "2 ^ (lb - 1) \<le> nat b" "nat b < 2 ^ lb"
    using floorlog_bounds [of "nat b" 2] b by (simp_all add: lb_def)
  have la1: "1 \<le> la" and lb1: "1 \<le> lb"
    using a b floorlog_eq_zero_iff [of 2 "nat a"] floorlog_eq_zero_iff [of 2 "nat b"]
    by (simp_all add: la_def lb_def Suc_le_eq)
  have ra: "(2::rat) ^ (la - 1) \<le> of_int a" "of_int a < (2::rat) ^ la"
  proof -
    have "of_nat (2 ^ (la - 1)) \<le> (of_nat (nat a) :: rat)"
      using la(1) by (simp only: of_nat_le_iff)
    then show "(2::rat) ^ (la - 1) \<le> of_int a" using a by simp
    have "(of_nat (nat a) :: rat) < of_nat (2 ^ la)"
      using la(2) by (simp only: of_nat_less_iff)
    then show "of_int a < (2::rat) ^ la" using a by simp
  qed
  have rb: "(2::rat) ^ (lb - 1) \<le> of_int b" "of_int b < (2::rat) ^ lb"
  proof -
    have "of_nat (2 ^ (lb - 1)) \<le> (of_nat (nat b) :: rat)"
      using lb(1) by (simp only: of_nat_le_iff)
    then show "(2::rat) ^ (lb - 1) \<le> of_int b" using b by simp
    have "(of_nat (nat b) :: rat) < of_nat (2 ^ lb)"
      using lb(2) by (simp only: of_nat_less_iff)
    then show "of_int b < (2::rat) ^ lb" using b by simp
  qed
  define d where "d = int la - int lb"
  have low: "2 powi (d - 1) \<le> x"
  proof -
    have "d - 1 = int (la - 1) - int lb"
      using la1 by (simp add: d_def of_nat_diff)
    then have "(2::rat) powi (d - 1) = 2 powi (int (la - 1) - int lb)"
      by (simp only:)
    also have "\<dots> = 2 ^ (la - 1) / 2 ^ lb"
      by (simp add: pow2_diff)
    also have "\<dots> \<le> of_int a / of_int b"
      using ra(1) rb(2) a b by (intro frac_le) simp_all
    finally show ?thesis by (simp add: x)
  qed
  have high: "x < 2 powi (d + 1)"
  proof -
    have "x = of_int a / of_int b" by (rule x)
    also have "\<dots> < 2 ^ la / 2 ^ (lb - 1)"
      using ra(2) rb(1) a by (intro frac_less) simp_all
    also have "\<dots> = 2 powi (int la - int (lb - 1))"
      by (simp add: pow2_diff)
    also have "\<dots> = 2 powi (d + 1)"
    proof -
      have "int la - int (lb - 1) = d + 1"
        using lb1 by (simp add: d_def of_nat_diff)
      then show ?thesis by (simp only:)
    qed
    finally show ?thesis .
  qed
  have bin: "binade x = (if 2 powi d \<le> x then d else d - 1)"
    by (simp add: binade_def q d_def la_def lb_def)
  show "2 powi binade x \<le> x"
    using low by (simp add: bin)
  show "x < 2 powi (binade x + 1)"
    using high by (simp add: bin not_le)
qed

lemma binade_unique:
  assumes "0 < x" and "2 powi e \<le> x" and "x < 2 powi (e + 1)"
  shows "binade x = e"
proof (rule antisym)
  show "binade x \<le> e"
  proof (rule ccontr)
    assume "\<not> binade x \<le> e"
    then have "(2::rat) powi (e + 1) \<le> 2 powi binade x" by (intro pow2_mono) simp
    with binade_bounds(1) [OF assms(1)] assms(3) show False by simp
  qed
  show "e \<le> binade x"
  proof (rule ccontr)
    assume "\<not> e \<le> binade x"
    then have "(2::rat) powi (binade x + 1) \<le> 2 powi e" by (intro pow2_mono) simp
    with binade_bounds(2) [OF assms(1)] assms(2) show False by simp
  qed
qed

lemma binade_mono:
  assumes "0 < x" and "x \<le> y"
  shows "binade x \<le> binade y"
proof (rule ccontr)
  assume "\<not> binade x \<le> binade y"
  then have "(2::rat) powi (binade y + 1) \<le> 2 powi binade x" by (intro pow2_mono) simp
  moreover have "0 < y" using assms by simp
  ultimately show False
    using binade_bounds(1) [OF assms(1)] binade_bounds(2) [of y] assms(2) by simp
qed

lemma to_double_pos:
  assumes "0 < x"
  shows "to_double x = of_int (round_half_even (x / 2 powi (binade x - 52))) * 2 powi (binade x - 52)"
  using assms by (simp add: to_double_def Let_def)

lemma to_double_bounds:
  assumes "0 < x"
  shows "2 powi binade x \<le> to_double x" and "to_double x \<le> 2 powi (binade x + 1)"
proof -
  define u :: rat where "u = 2 powi (binade x - 52)"
  have u: "0 < u" by (simp add: u_def pow2_pos)
  have lo: "2 powi binade x = of_int (2 ^ 52) * u"
    by (simp add: u_def pow2_diff)
  have hi: "2 powi (binade x + 1) = of_int (2 ^ 53) * u"
    by (simp add: u_def pow2_diff power_int_add)
  have "of_int (2 ^ 52) * u \<le> x"
    using binade_bounds(1) [OF assms] by (simp only: lo)
  then have "of_int (2 ^ 52) \<le> x / u"
    using u by (simp add: pos_le_divide_eq)
  then have 1: "2 ^ 52 \<le> round_half_even (x / u)" by (rule rhe_ge)
  have "x \<le> of_int (2 ^ 53) * u"
    using binade_bounds(2) [OF assms] by (simp only: hi)
  then have "x / u \<le> of_int (2 ^ 53)"
    using u by (simp add: pos_divide_le_eq)
  then have 2: "round_half_even (x / u) \<le> 2 ^ 53" by (rule rhe_le)
  have td: "to_double x = of_int (round_half_even (x / u)) * u"
    using assms by (simp add: to_double_pos u_def)
  have "(of_int (2 ^ 52) :: rat) \<le> of_int (round_half_even (x / u))"
    using 1 by (simp only: of_int_le_iff)
  then have "of_int (2 ^ 52) * u \<le> of_int (round_half_even (x / u)) * u"
    using u by (intro mult_right_mono) (simp_all only: less_imp_le)
  then show "2 powi binade x \<le> to_double x" by (simp only: lo td)
  have "(of_int (round_half_even (x / u)) :: rat) \<le> of_int (2 ^ 53)"
    using 2 by (simp only: of_int_le_iff)
  then have "of_int (round_half_even (x / u)) * u \<le> of_int (2 ^ 53) * u"
    using u by (intro mult_right_mono) (simp_all only: less_imp_le)
  then show "to_double x \<le> 2 powi (binade x + 1)" by (simp only: hi td)
qed

lemma to_double_nonneg: "0 \<le> x \<Longrightarrow> 0 \<le> to_double x"
proof (cases "x = 0")
  case True then show ?thesis by (simp add: to_double_def)
next
  case False
  assume "0 \<le> x"
  with False have "0 < x" by simp
  from to_double_bounds(1) [OF this] pow2_pos [of "binade x"] show ?thesis by linarith
qed

lemma to_double_mono:
  assumes "0 \<le> x" and "x \<le> y"
  shows "to_double x \<le> to_double y"
proof (cases "x = 0")
  case True
  with assms to_double_nonneg [of y] show ?thesis by (simp add: to_double_def)
next
  case False
  with assms have x: "0 < x" and y: "0 < y" by simp_all
  have le: "binade x \<le> binade y" using x assms(2) by (rule binade_mono)
  show ?thesis
  proof (cases "binade x = binade y")
    case True
    define u :: rat where "u = 2 powi (binade x - 52)"
    have u: "0 < u" by (simp add: u_def pow2_pos)
    have "x / u \<le> y / u" using assms(2) u by (simp add: divide_right_mono)
    then have "round_half_even (x / u) \<le> round_half_even (y / u)" by (rule rhe_mono)
    then have "(of_int (round_half_even (x / u)) :: rat) \<le> of_int (round_half_even (y / u))"
      by (simp only: of_int_le_iff)
    then have "of_int (round_half_even (x / u)) * u \<le> of_int (round_half_even (y / u)) * u"
      using u by (intro mult_right_mono) simp_all
    then show ?thesis
      using x y True by (simp add: to_double_pos u_def)
  next
    case False
    with le have "binade x + 1 \<le> binade y" by simp
    then have "(2::rat) powi (binade x + 1) \<le> 2 powi binade y" by (rule pow2_mono)
    with to_double_bounds(2) [OF x] to_double_bounds(1) [OF y] show ?thesis by simp
  qed
qed

lemma to_double_exact:
  assumes "0 < x" and "2 powi e \<le> x" and "x < 2 powi (e + 1)"
    and "x / 2 powi (e - 52) = of_int k"
  shows "to_double x = x"
proof -
  have e: "binade x = e" using assms(1-3) by (rule binade_unique)
  have "to_double x = of_int k * 2 powi (e - 52)"
    using assms(1) by (simp add: to_double_pos e assms(4))
  also have "\<dots> = x"
    using pow2_pos [of "e - 52"] by (simp flip: assms(4))
  finally show ?thesis .
qed

lemma to_double_1: "to_double 1 = 1"
  by (rule to_double_exact [where e = 0 and k = "2 ^ 52"]) (simp_all add: power_int_minus)

lemma to_double_100: "to_double 100 = 100"
  by (rule to_double_exact [where e = 6 and k = "100 * 2 ^ 46"]) (simp_all add: power_int_minus)

text \<open>Concrete values, by rewriting.\<close>

lemma to_double_eval:
  assumes "0 < x" and "2 powi e \<le> x" and "x < 2 powi (e + 1)"
  shows "to_double x = of_int (round_half_even (x / 2 powi (e - 52))) * 2 powi (e - 52)"
  using binade_unique [OF assms] assms(1) by (simp add: to_double_pos)

lemma floor_fraction: "\<lfloor>(numeral a :: rat) / numeral b\<rfloor> = numeral a div numeral b"
  using floor_divide_of_int_eq [of "numeral a" "numeral b", where ?'a = rat] by simp

lemma to_double_half: "to_double (1 / 2) = 1 / 2"
  by (rule to_double_exact [where e = "-1" and k = "2 ^ 52"]) (simp_all add: power_int_minus)

lemma to_double_50: "to_double 50 = 50"
  by (rule to_double_exact [where e = 5 and k = "50 * 2 ^ 47"]) (simp_all add: power_int_minus)

section \<open>Score: properties\<close>

lemma Math_round_mono: "x \<le> y \<Longrightarrow> Math_round x \<le> Math_round y"
  by (simp add: Math_round_def floor_mono)

lemma score_of_mono:
  assumes "m \<le> m'"
  shows "score_of m t \<le> score_of m' t"
proof (cases "0 < t")
  case False then show ?thesis by (simp add: score_of_def)
next
  case True
  have q: "(of_nat m :: rat) / of_nat t \<le> of_nat m' / of_nat t"
    using assms by (simp add: divide_right_mono)
  have q0: "0 \<le> (of_nat m :: rat) / of_nat t" by simp
  have d: "js_divide (of_nat m) (of_nat t) \<le> js_divide (of_nat m') (of_nat t)"
    unfolding js_divide_def using q0 q by (rule to_double_mono)
  have d0: "0 \<le> js_divide (of_nat m) (of_nat t)"
    unfolding js_divide_def using q0 by (rule to_double_nonneg)
  have "js_times (js_divide (of_nat m) (of_nat t)) 100 \<le> js_times (js_divide (of_nat m') (of_nat t)) 100"
    unfolding js_times_def using d0 d by (intro to_double_mono) simp_all
  then show ?thesis
    using True by (simp add: score_of_def Math_round_mono)
qed

lemma score_of_range:
  assumes "m \<le> t"
  shows "0 \<le> score_of m t" and "score_of m t \<le> 100"
proof -
  have "0 \<le> score_of m t \<and> score_of m t \<le> 100"
  proof (cases "0 < t")
    case False then show ?thesis by (simp add: score_of_def)
  next
    case True
    define q :: rat where "q = of_nat m / of_nat t"
    have q: "0 \<le> q" "q \<le> 1" using assms True by (simp_all add: q_def)
    define d where "d = js_divide (of_nat m) (of_nat t)"
    have d0: "0 \<le> d" unfolding d_def js_divide_def using q(1) by (simp add: q_def to_double_nonneg)
    have "to_double q \<le> to_double 1" using q by (rule to_double_mono)
    then have d1: "d \<le> 1" by (simp add: d_def js_divide_def q_def to_double_1)
    have p0: "0 \<le> d * 100" and p1: "d * 100 \<le> 100" using d0 d1 by simp_all
    have t0: "0 \<le> js_times d 100" unfolding js_times_def using p0 by (rule to_double_nonneg)
    have "to_double (d * 100) \<le> to_double 100" using p0 p1 by (rule to_double_mono)
    then have t1: "js_times d 100 \<le> 100" by (simp add: js_times_def to_double_100)
    have "0 \<le> Math_round (js_times d 100)"
      using t0 by (simp add: Math_round_def)
    moreover have "Math_round (js_times d 100) \<le> 100"
    proof -
      have "js_times d 100 + 1 / 2 < of_int 101" using t1 by simp
      then have "\<lfloor>js_times d 100 + 1 / 2\<rfloor> < 101" by (simp only: floor_less_iff)
      then show ?thesis by (simp add: Math_round_def)
    qed
    ultimately show ?thesis using True by (simp add: score_of_def d_def)
  qed
  then show "0 \<le> score_of m t" and "score_of m t \<le> 100" by simp_all
qed


lemma score_all: "0 < t \<Longrightarrow> score_of t t = 100"
  by (simp add: score_of_def js_divide_def js_times_def to_double_1 to_double_100 Math_round_def
      floor_eq_iff)

lemma score_none: "score_of 0 t = (if 0 < t then 0 else 50)"
  by (simp add: score_of_def js_divide_def js_times_def to_double_def Math_round_def
      floor_eq_iff)

lemma score_half: "score_of 1 2 = 50"
  by (simp add: score_of_def js_divide_def js_times_def to_double_half to_double_50 Math_round_def
      floor_eq_iff)

text \<open>
  The two roundings of binary64 show at 23 met requirements of 40: the quotient is
  rounded down, its product with 100 falls just below 57.5, and the score is 57.
\<close>

lemma js_divide_23_40: "js_divide 23 40 = 5179139571476070 / 2 ^ 53"
  unfolding js_divide_def
  by (subst to_double_eval [where e = "-1"])
     (simp_all add: power_int_minus round_half_even_def Let_def floor_fraction)

lemma js_times_23_40: "js_times (5179139571476070 / 2 ^ 53) 100 = 8092405580431359 / 2 ^ 47"
  unfolding js_times_def
  by (subst to_double_eval [where e = 5])
     (simp_all add: power_int_minus round_half_even_def Let_def floor_fraction)

lemma score_23_40: "score_of 23 40 = 57"
proof -
  have "js_times (js_divide 23 40) 100 = 8092405580431359 / 2 ^ 47"
    by (simp only: js_divide_23_40 js_times_23_40)
  then show ?thesis
    by (simp add: score_of_def Math_round_def floor_eq_iff)
qed

section \<open>Sorting: properties\<close>

lemma array_sort_Nil: "array_sort cmp [] = []"
  by (simp add: array_sort_def)

lemma array_sort_Cons: "array_sort cmp (x # xs) = insert_sorted cmp x (array_sort cmp xs)"
  by (simp add: array_sort_def)

lemma set_insert_sorted: "set (insert_sorted cmp x ys) = insert x (set ys)"
  by (induction ys) auto

lemma insert_sorted_descending:
  fixes f :: "'a \<Rightarrow> int"
  assumes "sorted_wrt (\<lambda>a b. f b \<le> f a) ys"
  shows "sorted_wrt (\<lambda>a b. f b \<le> f a) (insert_sorted (\<lambda>a b. f b - f a) x ys)"
  using assms
proof (induction ys)
  case Nil
  show ?case by simp
next
  case (Cons y ys)
  show ?case
  proof (cases "f y \<le> f x")
    case True
    with Cons.prems show ?thesis by auto
  next
    case False
    with Cons show ?thesis by (auto simp: set_insert_sorted)
  qed
qed

lemma filter_insert_sorted:
  fixes f :: "'a \<Rightarrow> int"
  shows "filter (\<lambda>y. f y = k) (insert_sorted (\<lambda>a b. f b - f a) x ys) =
         (if f x = k then x # filter (\<lambda>y. f y = k) ys else filter (\<lambda>y. f y = k) ys)"
  by (induction ys) auto

lemma array_sort_descending:
  fixes f :: "'a \<Rightarrow> int"
  shows "sorted_wrt (\<lambda>a b. f b \<le> f a) (array_sort (\<lambda>a b. f b - f a) xs)"
  by (induction xs) (simp_all add: array_sort_Nil array_sort_Cons insert_sorted_descending)

lemma array_sort_stable:
  fixes f :: "'a \<Rightarrow> int"
  shows "filter (\<lambda>y. f y = k) (array_sort (\<lambda>a b. f b - f a) xs) = filter (\<lambda>y. f y = k) xs"
  by (induction xs) (simp_all add: array_sort_Nil array_sort_Cons filter_insert_sorted)


section \<open>Scorer and pipeline: results\<close>

lemma disjoint_filters:
  assumes "\<And>x. \<not> (P x \<and> Q x)"
  shows "length (filter P xs) + length (filter Q xs) \<le> length xs"
  using assms by (induction xs) auto

text \<open>The result of the scorer in closed form.\<close>

lemma calculateMatch_eq:
  "calculateMatch profile b =
     (let met = filter (\<lambda>r. fst (checkRequirement profile r) = Some True) (requirements b);
          open = filter (\<lambda>r. fst (checkRequirement profile r) = None) (requirements b);
          score = score_of (length met) (length (requirements b))
      in \<lparr>matchScore = score,
          eligibilityStatus = status_of (length open) (length (requirements b)) score,
          matchedRequirements = map description met,
          missingInfo = map description open\<rparr>)"
  by (simp add: calculateMatch_def loop_result Let_def)

lemma checkRequirement_rating:
  "checkRequirement (rated n) rating_req = (Some (10 \<le> n), False)"
  by (simp add: checkRequirement_def rated_def rating_req_def no_criteria_def)

text \<open>
  Half a year of service is 182.5 days, a double; the product is exact and meets a
  minimum of 181 days, while a minimum of 183 days is missed.
\<close>

lemma to_double_half_year: "to_double (365 / 2) = 365 / 2"
  by (rule to_double_exact [where e = 7 and k = "365 * 2 ^ 44"]) (simp_all add: power_int_minus)

lemma checkRequirement_half_year:
  "checkRequirement (served (1 / 2)) (days_req 181) = (Some True, False)"
  "checkRequirement (served (1 / 2)) (days_req 183) = (Some False, False)"
  by (simp_all add: checkRequirement_def served_def days_req_def blank_profile_def
      no_criteria_def js_times_def to_double_half_year)

lemma checkRequirement_other: "checkRequirement profile other_req = (None, True)"
  by (simp add: checkRequirement_def other_req_def)

lemma calculateMatch_tx:
  "calculateMatch (rated 80) tx_benefit =
     \<lparr>matchScore = 50, eligibilityStatus = Possible,
      matchedRequirements = [description rating_req],
      missingInfo = [description other_req]\<rparr>"
  using score_half
  by (simp add: calculateMatch_eq tx_benefit_def checkRequirement_rating checkRequirement_other
      status_of_def numeral_2_eq_2)

lemma calculateMatch_tx_low:
  "calculateMatch (rated 5) tx_benefit =
     \<lparr>matchScore = 0, eligibilityStatus = Unlikely,
      matchedRequirements = [], missingInfo = [description other_req]\<rparr>"
  by (simp add: calculateMatch_eq tx_benefit_def checkRequirement_rating checkRequirement_other
      score_none status_of_def)

lemma calculateMatch_rating:
  "calculateMatch (rated 80) rating_benefit =
     \<lparr>matchScore = 100, eligibilityStatus = Likely,
      matchedRequirements = [description rating_req], missingInfo = []\<rparr>"
  by (simp add: calculateMatch_eq rating_benefit_def checkRequirement_rating
      score_all [of 1, simplified] status_of_def)

lemma calculateMatch_no_requirements:
  "requirements b = [] \<Longrightarrow>
   calculateMatch profile b =
     \<lparr>matchScore = 50, eligibilityStatus = Unknown, matchedRequirements = [], missingInfo = []\<rparr>"
  by (simp add: calculateMatch_eq score_of_def status_of_def)

theorem status_order_witness:
  "length (missingInfo (calculateMatch (rated 80) tx_benefit)) \<noteq> length (requirements tx_benefit) \<and>
   matchScore (calculateMatch (rated 80) tx_benefit) = 50 \<and>
   eligibilityStatus (calculateMatch (rated 80) tx_benefit) = Possible \<and>
   eligibilityStatus (calculateMatch (rated 80) rating_benefit) = Likely \<and>
   eligibilityStatus (calculateMatch (rated 5) tx_benefit) = Unlikely \<and>
   eligibilityStatus (calculateMatch (rated 5) no_req_benefit) = Unknown"
proof -
  have len: "length (requirements tx_benefit) = 2" "length (requirements rating_benefit) = 1"
    "requirements no_req_benefit = []"
    by (simp_all add: tx_benefit_def rating_benefit_def no_req_benefit_def)
  from status_order [of "rated 80" tx_benefit] status_order [of "rated 80" rating_benefit]
    status_order [of "rated 5" tx_benefit] status_order [of "rated 5" no_req_benefit]
  show ?thesis
    by (simp add: calculateMatch_tx calculateMatch_rating calculateMatch_tx_low
        calculateMatch_no_requirements len)
qed

text \<open>
  C9. Every result of the scorer has a score from 0 to 100, and its two lists together
  have at most as many entries as the benefit has requirements.
\<close>

theorem match_invariant:
  "0 \<le> matchScore (calculateMatch profile b) \<and>
   matchScore (calculateMatch profile b) \<le> 100 \<and>
   length (matchedRequirements (calculateMatch profile b)) +
     length (missingInfo (calculateMatch profile b)) \<le> length (requirements b)"
proof -
  let ?met = "filter (\<lambda>r. fst (checkRequirement profile r) = Some True) (requirements b)"
  let ?open = "filter (\<lambda>r. fst (checkRequirement profile r) = None) (requirements b)"
  have le: "length ?met \<le> length (requirements b)"
    by (rule length_filter_le)
  have score: "matchScore (calculateMatch profile b) =
      score_of (length ?met) (length (requirements b))"
    by (simp add: calculateMatch_eq Let_def)
  have "length ?met + length ?open \<le> length (requirements b)"
    by (rule disjoint_filters) auto
  then have "length (matchedRequirements (calculateMatch profile b)) +
      length (missingInfo (calculateMatch profile b)) \<le> length (requirements b)"
    by (simp add: calculateMatch_eq Let_def)
  with score_of_range [OF le] score show ?thesis
    by simp
qed

theorem match_invariant_witness:
  "matchScore (calculateMatch (rated 5) tx_benefit) = 0 \<and>
   length (matchedRequirements (calculateMatch (rated 5) tx_benefit)) +
     length (missingInfo (calculateMatch (rated 5) tx_benefit)) = 1 \<and>
   length (requirements tx_benefit) = 2 \<and>
   0 \<le> matchScore (calculateMatch (rated 80) rating_benefit) \<and>
   matchScore (calculateMatch (rated 80) rating_benefit) \<le> 100"
proof -
  have "length (requirements tx_benefit) = 2"
    by (simp add: tx_benefit_def)
  with match_invariant [of "rated 80" rating_benefit] show ?thesis
    by (simp add: calculateMatch_tx_low)
qed

text \<open>
  C10. With the number of requirements fixed and positive, the score does not decrease
  when the number of met requirements grows.
\<close>

theorem score_monotonic:
  assumes "0 < totalRequirements" and "metCount \<le> metCount'"
    and "metCount' \<le> totalRequirements"
  shows "score_of metCount totalRequirements =
           Math_round (js_times (js_divide (of_nat metCount) (of_nat totalRequirements)) 100) \<and>
         score_of metCount totalRequirements \<le> score_of metCount' totalRequirements"
  using assms(1) score_of_mono [OF assms(2), of totalRequirements] by (simp add: score_of_def)

theorem score_monotonic_witness:
  "(0::nat) < 40 \<and> (23::nat) \<le> 40 \<and> (40::nat) \<le> 40 \<and>
   score_of 23 40 = 57 \<and> score_of 40 40 = 100 \<and> score_of 23 40 \<le> score_of 40 40"
  using score_monotonic [of 40 23 40] score_23_40 score_all [of 40] by simp

section \<open>Match pipeline: properties\<close>

lemma benefit_to_match: "benefit (to_match profile b) = b"
  by (simp add: to_match_def Let_def)

lemma matchScore_to_match:
  "matchScore (to_match profile b) = matchScore (calculateMatch profile b)"
  by (simp add: to_match_def Let_def)

text \<open>
  C8. The output of matchBenefits is in descending order of matchScore, and for every
  score the matches with that score come in the order their benefits have in the
  location-filtered catalog.
\<close>

theorem matchBenefits_sorted_stable:
  "sorted_wrt (\<lambda>a b. matchScore a \<ge> matchScore b) (matchBenefits profile benefits) \<and>
   (\<forall>s. map benefit (filter (\<lambda>m. matchScore m = s) (matchBenefits profile benefits)) =
        filter (\<lambda>b. matchScore (calculateMatch profile b) = s)
          (getBenefitsForLocation (zipCode profile) benefits))"
proof -
  let ?ms = "map (to_match profile) (getBenefitsForLocation (zipCode profile) benefits)"
  have sorted: "sorted_wrt (\<lambda>a b. matchScore a \<ge> matchScore b) (matchBenefits profile benefits)"
    unfolding matchBenefits_def by (rule array_sort_descending)
  have "map benefit (filter (\<lambda>m. matchScore m = s) (matchBenefits profile benefits)) =
        filter (\<lambda>b. matchScore (calculateMatch profile b) = s)
          (getBenefitsForLocation (zipCode profile) benefits)" for s
  proof -
    have "filter (\<lambda>m. matchScore m = s) (matchBenefits profile benefits) =
          filter (\<lambda>m. matchScore m = s) ?ms"
      unfolding matchBenefits_def by (rule array_sort_stable)
    also have "\<dots> = map (to_match profile)
        (filter (\<lambda>b. matchScore (calculateMatch profile b) = s)
          (getBenefitsForLocation (zipCode profile) benefits))"
      by (simp add: filter_map comp_def matchScore_to_match)
    finally show ?thesis
      by (simp add: comp_def benefit_to_match)
  qed
  with sorted show ?thesis by blast
qed

theorem matchBenefits_sorted_stable_witness:
  "map benefit (filter (\<lambda>m. matchScore m = 50)
      (matchBenefits (rated 80) [va_health, ca_benefit, rating_benefit, no_req_benefit])) =
     [va_health, no_req_benefit] \<and>
   map benefit (filter (\<lambda>m. matchScore m = 100)
      (matchBenefits (rated 80) [va_health, ca_benefit, rating_benefit, no_req_benefit])) =
     [rating_benefit]"
proof -
  let ?cat = "[va_health, ca_benefit, rating_benefit, no_req_benefit]"
  have zip: "zipCode (rated 80) = ''78701''"
    by (simp add: rated_def blank_profile_def)
  have loc: "getBenefitsForLocation ''78701'' ?cat = [va_health, rating_benefit, no_req_benefit]"
    by (simp add: filter_at_location [OF lookup_austin] in_scope_def
        dimension_admits_def va_health_def ca_benefit_def rating_benefit_def no_req_benefit_def
        no_coverage_def austin_def)
  have scores: "matchScore (calculateMatch (rated 80) va_health) = 50"
    "matchScore (calculateMatch (rated 80) rating_benefit) = 100"
    "matchScore (calculateMatch (rated 80) no_req_benefit) = 50"
    by (simp_all add: calculateMatch_rating calculateMatch_no_requirements va_health_def
        no_req_benefit_def)
  from matchBenefits_sorted_stable [of "rated 80" ?cat] show ?thesis
    by (simp add: zip loc scores)
qed

end
